theory Spec2Isabelle
  imports Complex_Main "HOL-Library.Sublist"
begin

section \<open>Python values\<close>

text \<open>
  The program is one Streamlit script, \<^verbatim>\<open>src/main.py\<close>. A Python \<^verbatim>\<open>str\<close> is modelled as
  a \<open>string\<close> in which one \<open>char\<close> stands for one code point below 256, so \<open>length\<close>,
  \<open>take\<close> and \<open>@\<close> count and cut as Python does on such text. A letter of the source
  beyond ASCII is written by its code point (\<open>CHR 0xF3\<close> is the o with acute accent).
  The pictographs that open some user interface literals lie above 255; they and the blank
  after them are left out of the literal.

  What \<^verbatim>\<open>json.loads\<close> returns is a \<open>json\<close> value. A Python float is kept as the rational
  it denotes, or as one of the three special values JSON text may name. A dict is an
  association list in insertion order (its keys are distinct).
\<close>

datatype pyfloat = Finite rat | PosInf | NegInf | NaN

datatype json =
    JNull
  | JBool bool
  | JInt int
  | JFloat pyfloat
  | JStr string
  | JArr "json list"
  | JObj "(string \<times> json) list"

text \<open>
  An exception that leaves a function. \<open>LibraryError m\<close> is any exception \<open>e\<close> raised
  inside a library call (PyPDF2, the Groq client, \<^verbatim>\<open>json\<close>, pandas) with \<open>str(e) = m\<close>.
\<close>

datatype exn =
    KeyError string
  | TypeError
  | ZeroDivisionError
  | ValueError
  | AttributeError
  | LibraryError string

text \<open>Truth value of an object, as \<^verbatim>\<open>if x:\<close> tests it.\<close>

fun truthy :: "json \<Rightarrow> bool" where
  "truthy JNull = False"
| "truthy (JBool b) = b"
| "truthy (JInt i) = (i \<noteq> 0)"
| "truthy (JFloat f) = (f \<noteq> Finite 0)"
| "truthy (JStr s) = (s \<noteq> [])"
| "truthy (JArr xs) = (xs \<noteq> [])"
| "truthy (JObj kvs) = (kvs \<noteq> [])"

text \<open>\<^verbatim>\<open>d[k]\<close> with a string key: only a dict accepts it.\<close>

fun getitem :: "json \<Rightarrow> string \<Rightarrow> exn + json" where
  "getitem (JObj kvs) k = (case map_of kvs k of None \<Rightarrow> Inl (KeyError k) | Some v \<Rightarrow> Inr v)"
| "getitem _ k = Inl TypeError"

text \<open>\<^verbatim>\<open>len(x)\<close>.\<close>

fun py_len :: "json \<Rightarrow> exn + nat" where
  "py_len (JStr s) = Inr (length s)"
| "py_len (JArr xs) = Inr (length xs)"
| "py_len (JObj kvs) = Inr (length kvs)"
| "py_len _ = Inl TypeError"

text \<open>\<^verbatim>\<open>for d in x\<close>: the items a value yields when iterated.\<close>

fun py_iter :: "json \<Rightarrow> exn + json list" where
  "py_iter (JStr s) = Inr (map (\<lambda>c. JStr [c]) s)"
| "py_iter (JArr xs) = Inr xs"
| "py_iter (JObj kvs) = Inr (map (\<lambda>kv. JStr (fst kv)) kvs)"
| "py_iter _ = Inl TypeError"

section \<open>What the user sees and what leaves the process\<close>

record request =
  model :: string
  messages :: "(string \<times> string) list"
  temperature :: rat
  response_format :: "(string \<times> string) list"

text \<open>
  A number that \<^verbatim>\<open>sum\<close> accepts. The third metric of the dashboard is a floating point
  quotient rounded by \<^verbatim>\<open>round(_, 1)\<close>; \<open>Rounded_mean xs\<close> stands for that value for the
  addends \<open>xs\<close>, in order, and is not evaluated here.
\<close>

datatype num = NInt int | NFloat pyfloat

datatype metric_value = Count nat | Rounded_mean "num list"

text \<open>A piece of an f-string: literal text, or a value formatted by \<^verbatim>\<open>str\<close>.\<close>

datatype fragment = Lit string | Fmt json

datatype event =
    St_warning string
  | St_error string
  | St_spinner string
  | Groq_create string request
  | St_metric string metric_value
  | St_info "fragment list"

text \<open>
  The trace of a run keeps the calls that carry data: warnings, errors, the spinner, the
  remote call, the metrics and the summary. Titles, rules and column layout are left out.

  The libraries the script calls are parameters. \<open>create key req\<close> is the call
  \<^verbatim>\<open>client.chat.completions.create(...)\<close> of lines 80 to 88, on the client that line 53
  makes from \<open>key\<close>, followed by \<^verbatim>\<open>.choices[0].message.content\<close>: \<open>Inl m\<close> when an
  exception with text \<open>m\<close> is raised on the way, \<open>Inr c\<close> for the content, which the
  client types as an optional string. \<open>json_loads\<close> is \<^verbatim>\<open>json.loads\<close> on that content.
  Making the client from a key that is not empty only stores the key.
\<close>

record env =
  create :: "string \<Rightarrow> request \<Rightarrow> string + string option"
  json_loads :: "string option \<Rightarrow> string + json"

section \<open>Document text extractor\<close>

text \<open>
  An uploaded file is what PyPDF2 makes of it: \<open>Inl m\<close> when \<^verbatim>\<open>PdfReader\<close> raises, else
  the pages in order, each the outcome of its \<^verbatim>\<open>extract_text()\<close>.
\<close>

type_synonym uploaded_file = "string + (string + string) list"

fun extract_pages :: "string \<Rightarrow> (string + string) list \<Rightarrow> exn + string" where
  "extract_pages text [] = Inr text"
| "extract_pages text (Inl m # ps) = Inl (LibraryError m)"
| "extract_pages text (Inr t # ps) = extract_pages (text @ t) ps"

fun extract_text_from_pdf :: "uploaded_file option \<Rightarrow> exn + string" where
  "extract_text_from_pdf None = Inr ''''"
| "extract_text_from_pdf (Some (Inl m)) = Inl (LibraryError m)"
| "extract_text_from_pdf (Some (Inr pages)) = extract_pages '''' pages"

section \<open>Diagnosis requester\<close>

definition nl :: string where
  "nl = [CHR 0x0A]"

definition system_prompt :: string where
  \<open>system_prompt = concat [nl,
     ''    Act'', [CHR 0xFA], ''a como un Consultor Senior de RRHH experto en Formaci'', [CHR 0xF3],
       ''n Corporativa.'', nl,
     ''    Tu tarea es analizar los dolores de la empresa y su estrategia para generar un plan de formaci'',
       [CHR 0xF3], ''n.'', nl,
     ''    '', nl,
     ''    IMPORTANTE: Tu respuesta debe ser EXCLUSIVAMENTE un objeto JSON v'', [CHR 0xE1],
       ''lido con la siguiente estructura, sin texto adicional antes o despu'', [CHR 0xE9], ''s:'', nl,
     ''    {'', nl,
     ''        "diagnosis_summary": "Resumen ejecutivo del problema detectado (max 50 palabras)",'', nl,
     ''        "identified_gaps": ['', nl,
     ''            {"gap": "Nombre de la brecha", "severity": score_1_to_10, "category": "Tecnica/Blanda/Estrategica"}'', nl,
     ''        ],'', nl,
     ''        "recommended_plan": ['', nl,
     ''            {"module": "Nombre del modulo", "duration": "Horas estimadas", "objective": "Objetivo de aprendizaje"}'', nl,
     ''        ],'', nl,
     ''        "recommended_specialties": ["Especialidad1", "Especialidad2"] '', nl,
     ''    }'', nl,
     ''    '']\<close>

definition content_head :: string where
  "content_head = nl @ ''    DOLORES/NECESIDADES: ''"

definition content_mid :: string where
  "content_mid = nl @ ''    '' @ nl @ ''    CONTEXTO ESTRAT'' @ [CHR 0xC9] @ ''GICO (PDF): ''"

definition content_tail :: string where
  "content_tail = '' (texto truncado para eficiencia)'' @ nl @ ''    ''"

text \<open>The f-string of lines 73 to 77; \<^verbatim>\<open>strategy_text[:2000]\<close> is \<open>take 2000\<close>.\<close>

definition user_content :: "string \<Rightarrow> string \<Rightarrow> string" where
  "user_content pain_points strategy_text =
     content_head @ pain_points @ content_mid @ take 2000 strategy_text @ content_tail"

definition diagnosis_request :: "string \<Rightarrow> string \<Rightarrow> request" where
  "diagnosis_request pain_points strategy_text =
     \<lparr> model = ''llama-3.1-70b-versatile'',
       messages = [(''system'', system_prompt),
                   (''user'', user_content pain_points strategy_text)],
       temperature = 1 / 10,
       response_format = [(''type'', ''json_object'')] \<rparr>"

definition error_head :: string where
  "error_head = ''Error al conectar con Groq o procesar JSON: ''"

text \<open>
  Lines 51 to 92. The result is the trace of the call and the returned value; Python's
  \<^verbatim>\<open>None\<close> of the \<^verbatim>\<open>except\<close> branch is \<open>JNull\<close>.
\<close>

definition get_ai_diagnosis :: "env \<Rightarrow> string \<Rightarrow> string \<Rightarrow> string \<Rightarrow> event list \<times> json" where
  "get_ai_diagnosis E api_key pain_points strategy_text =
     (let req = diagnosis_request pain_points strategy_text in
      case create E api_key req of
        Inl m \<Rightarrow> ([Groq_create api_key req, St_error (error_head @ m)], JNull)
      | Inr content \<Rightarrow>
          (case json_loads E content of
             Inl m \<Rightarrow> ([Groq_create api_key req, St_error (error_head @ m)], JNull)
           | Inr v \<Rightarrow> ([Groq_create api_key req], v)))"

section \<open>The action of the primary button\<close>

type_synonym session_state = "string \<rightharpoonup> json"

record inputs =
  groq_api_key :: string
  pain_points :: string
  uploaded_file :: "uploaded_file option"
  process_btn :: bool

definition warning_no_key :: string where
  "warning_no_key = ''Por favor ingresa tu API Key de Groq en la barra lateral.''"

definition warning_no_pain :: string where
  "warning_no_pain = ''Por favor describe los dolores o necesidades.''"

definition spinner_text :: string where
  "spinner_text = ''Analizando documentos, consultando a Llama-3 y buscando expertos...''"

definition no_pdf_text :: string where
  "no_pdf_text = ''No se proporcion'' @ [CHR 0xF3] @ '' PDF, basar solo en dolores.''"

text \<open>Line 129: the extractor is called only on a file that is there.\<close>

definition pdf_text :: "uploaded_file option \<Rightarrow> exn + string" where
  "pdf_text f = (case f of None \<Rightarrow> Inr no_pdf_text | Some u \<Rightarrow> extract_text_from_pdf (Some u))"

text \<open>
  Lines 121 to 137: the trace, the session state afterwards, and the exception that ends
  the script run, if any.
\<close>

definition process_btn_handler ::
  "env \<Rightarrow> inputs \<Rightarrow> session_state \<Rightarrow> event list \<times> session_state \<times> exn option" where
  "process_btn_handler E inp st =
     (if \<not> process_btn inp then ([], st, None)
      else if groq_api_key inp = [] then ([St_warning warning_no_key], st, None)
      else if pain_points inp = [] then ([St_warning warning_no_pain], st, None)
      else
        (case pdf_text (uploaded_file inp) of
           Inl e \<Rightarrow> ([St_spinner spinner_text], st, Some e)
         | Inr text \<Rightarrow>
             (let (evs, diagnosis_result) =
                    get_ai_diagnosis E (groq_api_key inp) (pain_points inp) text
              in if truthy diagnosis_result
                 then (St_spinner spinner_text # evs,
                       st(''diagnosis'' \<mapsto> diagnosis_result, ''processed'' \<mapsto> JBool True),
                       None)
                 else (St_spinner spinner_text # evs, st, None))))"

section \<open>Dashboard: summary metrics\<close>

text \<open>
  One addend of \<^verbatim>\<open>sum(d['severity'] for d in ...)\<close>: the lookup, then the addition to the
  running total, which accepts an int, a bool (an int in Python) or a float.
\<close>

fun severity_of :: "json \<Rightarrow> exn + num" where
  "severity_of d =
     (case getitem d ''severity'' of
        Inl e \<Rightarrow> Inl e
      | Inr (JInt i) \<Rightarrow> Inr (NInt i)
      | Inr (JBool b) \<Rightarrow> Inr (NInt (if b then 1 else 0))
      | Inr (JFloat f) \<Rightarrow> Inr (NFloat f)
      | Inr _ \<Rightarrow> Inl TypeError)"

fun severities :: "json list \<Rightarrow> exn + num list" where
  "severities [] = Inr []"
| "severities (d # ds) =
     (case severity_of d of
        Inl e \<Rightarrow> Inl e
      | Inr x \<Rightarrow> (case severities ds of Inl e \<Rightarrow> Inl e | Inr xs \<Rightarrow> Inr (x # xs)))"

text \<open>Line 148: \<^verbatim>\<open>len(data['identified_gaps'])\<close>.\<close>

definition gaps_count :: "json \<Rightarrow> exn + metric_value" where
  "gaps_count data =
     (case getitem data ''identified_gaps'' of
        Inl e \<Rightarrow> Inl e
      | Inr g \<Rightarrow> (case py_len g of Inl e \<Rightarrow> Inl e | Inr n \<Rightarrow> Inr (Count n)))"

text \<open>Line 149: \<^verbatim>\<open>len(data['recommended_plan'])\<close>.\<close>

definition plan_count :: "json \<Rightarrow> exn + metric_value" where
  "plan_count data =
     (case getitem data ''recommended_plan'' of
        Inl e \<Rightarrow> Inl e
      | Inr p \<Rightarrow> (case py_len p of Inl e \<Rightarrow> Inl e | Inr n \<Rightarrow> Inr (Count n)))"

text \<open>
  Line 150: the sum is taken first, then the length, then the quotient, which raises
  when the length is zero. Nothing divides before that test, so the rounding of the float
  quotient stays in \<open>Rounded_mean\<close>.
\<close>

definition mean_severity :: "json \<Rightarrow> exn + metric_value" where
  "mean_severity data =
     (case getitem data ''identified_gaps'' of
        Inl e \<Rightarrow> Inl e
      | Inr g \<Rightarrow>
          (case py_iter g of
             Inl e \<Rightarrow> Inl e
           | Inr items \<Rightarrow>
               (case severities items of
                  Inl e \<Rightarrow> Inl e
                | Inr xs \<Rightarrow>
                    (case py_len g of
                       Inl e \<Rightarrow> Inl e
                     | Inr n \<Rightarrow> if n = 0 then Inl ZeroDivisionError else Inr (Rounded_mean xs)))))"

definition label_gaps :: string where
  "label_gaps = ''Brechas Identificadas''"

definition label_plan :: string where
  "label_plan = ''M'' @ [CHR 0xF3] @ ''dulos Sugeridos''"

definition label_severity :: string where
  "label_severity = ''Severidad Promedio''"

definition info_head :: string where
  "info_head = ''**Diagn'' @ [CHR 0xF3] @ ''stico:** ''"

text \<open>
  Lines 147 to 152 on the cached value \<open>data\<close>: what is drawn before the script run
  ends, and the exception that ends it, if any.
\<close>

definition dashboard_summary :: "json \<Rightarrow> event list \<times> exn option" where
  "dashboard_summary data =
     (case gaps_count data of
        Inl e \<Rightarrow> ([], Some e)
      | Inr c1 \<Rightarrow>
          (case plan_count data of
             Inl e \<Rightarrow> ([St_metric label_gaps c1], Some e)
           | Inr c2 \<Rightarrow>
               (case mean_severity data of
                  Inl e \<Rightarrow> ([St_metric label_gaps c1, St_metric label_plan c2], Some e)
                | Inr c3 \<Rightarrow>
                    (case getitem data ''diagnosis_summary'' of
                       Inl e \<Rightarrow>
                         ([St_metric label_gaps c1, St_metric label_plan c2,
                           St_metric label_severity c3], Some e)
                     | Inr s \<Rightarrow>
                         ([St_metric label_gaps c1, St_metric label_plan c2,
                           St_metric label_severity c3, St_info [Lit info_head, Fmt s]],
                          None)))))"

text \<open>Lines 140 and 141: the dashboard is drawn when \<^verbatim>\<open>processed\<close> is set.\<close>

definition dashboard :: "session_state \<Rightarrow> event list \<times> exn option" where
  "dashboard st =
     (case st ''processed'' of
        None \<Rightarrow> ([], None)
      | Some p \<Rightarrow>
          if \<not> truthy p then ([], None)
          else (case st ''diagnosis'' of
                  None \<Rightarrow> ([], Some (KeyError ''diagnosis''))
                | Some data \<Rightarrow> dashboard_summary data))"

text \<open>
  One run of the script from the button to the summary: the dashboard follows the
  handler in the same run unless the handler ended it.
\<close>

definition script_run ::
  "env \<Rightarrow> inputs \<Rightarrow> session_state \<Rightarrow> event list \<times> session_state \<times> exn option" where
  "script_run E inp st =
     (case process_btn_handler E inp st of
        (evs, st', Some e) \<Rightarrow> (evs, st', Some e)
      | (evs, st', None) \<Rightarrow>
          (case dashboard st' of (evs2, err) \<Rightarrow> (evs @ evs2, st', err)))"

section \<open>Mock directory generator\<close>

record expert =
  expert_id :: string
  name :: string
  specialty :: string
  rating :: rat
  hourly_rate :: int
  email :: string

definition specialties :: "string list" where
  "specialties = [''Liderazgo'', ''Python & Data'', ''Soft Skills'', ''Agile'', ''Ventas'',
                  ''Ciberseguridad'']"

text \<open>
  What the random sources hand to one turn of the loop: \<^verbatim>\<open>fake.name()\<close>, the index
  \<^verbatim>\<open>random.choice\<close> picks, the float of \<^verbatim>\<open>random.uniform(3.5, 5.0)\<close>, the int of
  \<^verbatim>\<open>random.randint(50, 200)\<close> and \<^verbatim>\<open>fake.email()\<close>. \<open>valid_draw\<close> is the contract of
  \<^verbatim>\<open>random\<close> for these calls.
\<close>

record draw =
  fake_name :: string
  choice :: nat
  uniform :: rat
  randint :: int
  fake_email :: string

definition valid_draw :: "draw \<Rightarrow> bool" where
  "valid_draw d \<longleftrightarrow>
     choice d < length specialties \<and> 7 / 2 \<le> uniform d \<and> uniform d \<le> 5 \<and>
     50 \<le> randint d \<and> randint d \<le> 200"

text \<open>
  \<^verbatim>\<open>round(x, 1)\<close> on a float rounds the exact value of \<open>x\<close> to the nearest multiple of
  one tenth, a tie going to the even multiple, and returns the float nearest to that
  decimal; the result is kept as the decimal.
\<close>

definition py_round1 :: "rat \<Rightarrow> rat" where
  "py_round1 x =
     (let f = \<lfloor>x * 10\<rfloor>; r = x * 10 - of_int f
      in of_int (if r < 1 / 2 then f else if 1 / 2 < r then f + 1
                 else if even f then f else f + 1) / 10)"

text \<open>\<^verbatim>\<open>str(n)\<close> for a number that is not negative.\<close>

fun str_nat :: "nat \<Rightarrow> string" where
  "str_nat n =
     (if n < 10 then [char_of (48 + n)]
      else str_nat (n div 10) @ [char_of (48 + n mod 10)])"

definition mock_expert :: "nat \<Rightarrow> draw \<Rightarrow> expert" where
  "mock_expert i d =
     \<lparr> expert_id = ''EXP-'' @ str_nat (i + 100),
       name = fake_name d,
       specialty = specialties ! choice d,
       rating = py_round1 (uniform d),
       hourly_rate = randint d,
       email = fake_email d \<rparr>"

text \<open>Lines 21 to 35; \<open>rnd i\<close> is the draw of turn \<open>i\<close>. The rows keep the order of the loop.\<close>

definition generate_mock_database :: "(nat \<Rightarrow> draw) \<Rightarrow> expert list" where
  "generate_mock_database rnd = map (\<lambda>i. mock_expert i (rnd i)) [0..<15]"

section \<open>Dashboard: expert filter\<close>

text \<open>
  The filter calls pandas. \<open>Outside\<close> marks an input on which the library's behaviour is
  not modelled here; nothing is stated about the program there.
\<close>

datatype 'a outcome = Returns 'a | Raises exn | Outside

text \<open>\<^verbatim>\<open>data.get(k, default)\<close>: a method of dicts only.\<close>

fun dict_get :: "json \<Rightarrow> string \<Rightarrow> json \<Rightarrow> exn + json" where
  "dict_get (JObj kvs) k d = Inr (case map_of kvs k of None \<Rightarrow> d | Some v \<Rightarrow> v)"
| "dict_get _ k d = Inl AttributeError"

text \<open>
  Case folding of one code point below 256, as a search under \<^verbatim>\<open>re.IGNORECASE\<close>
  compares: the capitals of ASCII and of Latin-1 (the multiplication sign 215 is none)
  go to their small letters.
\<close>

definition lower :: "char \<Rightarrow> char" where
  "lower c =
     (let n = (of_char c :: nat)
      in if (65 \<le> n \<and> n \<le> 90) \<or> (192 \<le> n \<and> n \<le> 222 \<and> n \<noteq> 215)
         then char_of (n + 32) else c)"

text \<open>
  \<^verbatim>\<open>Series.str.contains(pat, case=False, na=False)\<close> leaves \<^verbatim>\<open>regex\<close> at its default
  \<^verbatim>\<open>True\<close>: \<open>pat\<close> is a regular expression, searched in each cell with \<^verbatim>\<open>re.IGNORECASE\<close>.
  The fragment modelled is the patterns made of ordinary characters and the dot, which
  matches every character but the newline. A pattern with one of the other special
  characters is outside.
\<close>

definition special_chars :: string where
  \<open>special_chars = CHR 0x5C # ''^$*+?{}[]|()''\<close>

fun match_here :: "string \<Rightarrow> string \<Rightarrow> bool" where
  "match_here [] s = True"
| "match_here (p # ps) [] = False"
| "match_here (p # ps) (c # cs) =
     ((if p = CHR ''.'' then c \<noteq> CHR 0x0A else lower p = lower c) \<and> match_here ps cs)"

fun re_search :: "string \<Rightarrow> string \<Rightarrow> bool" where
  "re_search pat [] = match_here pat []"
| "re_search pat (c # cs) = (match_here pat (c # cs) \<or> re_search pat cs)"

definition in_fragment :: "string \<Rightarrow> bool" where
  "in_fragment pat = list_all (\<lambda>c. \<not> List.member special_chars c) pat"

text \<open>
  \<^verbatim>\<open>df.sample(n)\<close> draws \<open>n\<close> rows without replacement and raises when the table has
  fewer. \<open>idxs\<close> is the row numbers the random source picks, in the order drawn;
  \<open>is_draw\<close> is what pandas promises of them.
\<close>

definition is_draw :: "nat \<Rightarrow> nat \<Rightarrow> nat list \<Rightarrow> bool" where
  "is_draw n rows idxs \<longleftrightarrow> length idxs = n \<and> distinct idxs \<and> list_all (\<lambda>i. i < rows) idxs"

definition df_sample :: "nat \<Rightarrow> nat list \<Rightarrow> 'a list \<Rightarrow> 'a list outcome" where
  "df_sample n idxs df =
     (if length df < n then Raises ValueError
      else if is_draw n (length df) idxs then Returns (map (\<lambda>i. df ! i) idxs)
      else Outside)"

fun is_JStr :: "json \<Rightarrow> bool" where
  "is_JStr (JStr s) = True"
| "is_JStr _ = False"

text \<open>
  Lines 179 to 194. \<open>selected_filter\<close> is what the select box returns, one of
  \<^verbatim>\<open>["Todos"] + rec_specialties\<close>. \<^verbatim>\<open>isin\<close> is modelled for a list of strings.
\<close>

definition expert_filter ::
  "expert list \<Rightarrow> json \<Rightarrow> json \<Rightarrow> nat list \<Rightarrow> expert list outcome" where
  "expert_filter experts_db data selected_filter idxs =
     (case dict_get data ''recommended_specialties'' (JArr []) of
        Inl e \<Rightarrow> Raises e
      | Inr (JArr rec_specialties) \<Rightarrow>
          if selected_filter \<noteq> JStr ''Todos'' then
            (case selected_filter of
               JStr pat \<Rightarrow>
                 if in_fragment pat then
                   (let filtered_experts = filter (\<lambda>e. re_search pat (specialty e)) experts_db
                    in if filtered_experts = [] then df_sample 3 idxs experts_db
                       else Returns filtered_experts)
                 else Outside
             | _ \<Rightarrow> Raises TypeError)
          else if list_all is_JStr rec_specialties then
            (let filtered_experts =
                   filter (\<lambda>e. List.member rec_specialties (JStr (specialty e))) experts_db
             in if filtered_experts = [] then df_sample 5 idxs experts_db
                else Returns filtered_experts)
          else Outside
      | Inr _ \<Rightarrow> Raises TypeError)"

section \<open>The reply schema\<close>

text \<open>
  The structure the system prompt (lines 61 to 70) asks the model for; further keys are
  allowed. The script itself never tests a reply against it.
\<close>

fun has_str :: "(string \<times> json) list \<Rightarrow> string \<Rightarrow> bool" where
  "has_str kvs k = (case map_of kvs k of Some (JStr s) \<Rightarrow> True | _ \<Rightarrow> False)"

fun is_score :: "json \<Rightarrow> bool" where
  "is_score (JInt i) = (1 \<le> i \<and> i \<le> 10)"
| "is_score (JFloat (Finite q)) = (1 \<le> q \<and> q \<le> 10)"
| "is_score _ = False"

fun is_gap :: "json \<Rightarrow> bool" where
  "is_gap (JObj kvs) =
     (has_str kvs ''gap'' \<and>
      (case map_of kvs ''severity'' of Some v \<Rightarrow> is_score v | None \<Rightarrow> False) \<and>
      has_str kvs ''category'')"
| "is_gap _ = False"

fun is_module :: "json \<Rightarrow> bool" where
  "is_module (JObj kvs) =
     (has_str kvs ''module'' \<and> has_str kvs ''duration'' \<and> has_str kvs ''objective'')"
| "is_module _ = False"

fun matches_schema :: "json \<Rightarrow> bool" where
  "matches_schema (JObj kvs) =
     (has_str kvs ''diagnosis_summary'' \<and>
      (case map_of kvs ''identified_gaps'' of
         Some (JArr gs) \<Rightarrow> list_all is_gap gs | _ \<Rightarrow> False) \<and>
      (case map_of kvs ''recommended_plan'' of
         Some (JArr ms) \<Rightarrow> list_all is_module ms | _ \<Rightarrow> False) \<and>
      (case map_of kvs ''recommended_specialties'' of
         Some (JArr ss) \<Rightarrow> list_all is_JStr ss | _ \<Rightarrow> False))"
| "matches_schema _ = False"

section \<open>Substring search, as the specification words it\<close>

text \<open>
  The specification describes the specialty filter as a case-insensitive substring
  match. \<open>contains_ci pat s\<close> is that relation, to be compared with \<open>re_search\<close>.
\<close>

fun is_prefix_ci :: "string \<Rightarrow> string \<Rightarrow> bool" where
  "is_prefix_ci [] s = True"
| "is_prefix_ci (p # ps) [] = False"
| "is_prefix_ci (p # ps) (c # cs) = (lower p = lower c \<and> is_prefix_ci ps cs)"

fun contains_ci :: "string \<Rightarrow> string \<Rightarrow> bool" where
  "contains_ci pat [] = is_prefix_ci pat []"
| "contains_ci pat (c # cs) = (is_prefix_ci pat (c # cs) \<or> contains_ci pat cs)"

text \<open>The selection the specification describes for a chosen specialty.\<close>

definition spec_selection :: "string \<Rightarrow> expert list \<Rightarrow> expert list" where
  "spec_selection pat experts_db = filter (\<lambda>e. contains_ci pat (specialty e)) experts_db"

section \<open>Concrete runs\<close>

text \<open>Inputs, replies and draws on which the theorems below are evaluated.\<close>

definition no_session :: session_state where
  "no_session = Map.empty"

definition inputs_ok :: inputs where
  "inputs_ok = \<lparr> groq_api_key = ''gsk_demo'', pain_points = ''falta liderazgo'',
                 uploaded_file = None, process_btn = True \<rparr>"

definition inputs_no_key :: inputs where
  "inputs_no_key = \<lparr> groq_api_key = '''', pain_points = ''falta liderazgo'',
                     uploaded_file = None, process_btn = True \<rparr>"

definition env_replying :: "json \<Rightarrow> env" where
  "env_replying v = \<lparr> create = (\<lambda>key req. Inr (Some ''reply'')), json_loads = (\<lambda>c. Inr v) \<rparr>"

definition env_offline :: env where
  "env_offline = \<lparr> create = (\<lambda>key req. Inl ''Connection error.''),
                   json_loads = (\<lambda>c. Inr JNull) \<rparr>"

definition reply_off_schema :: json where
  "reply_off_schema = JObj [(''foo'', JInt 1)]"

definition reply_leadership :: json where
  "reply_leadership =
     JObj [(''diagnosis_summary'', JStr ''Falta liderazgo''),
           (''identified_gaps'',
              JArr [JObj [(''gap'', JStr ''Leadership''), (''severity'', JInt 7),
                          (''category'', JStr ''Blanda'')]]),
           (''recommended_plan'',
              JArr [JObj [(''module'', JStr ''Leadership 101''), (''duration'', JStr ''4h''),
                          (''objective'', JStr ''Liderar equipos'')]]),
           (''recommended_specialties'', JArr [JStr ''Liderazgo''])]"

definition reply_no_gaps :: json where
  "reply_no_gaps =
     JObj [(''diagnosis_summary'', JStr ''Sin brechas''),
           (''identified_gaps'', JArr []),
           (''recommended_plan'', JArr []),
           (''recommended_specialties'', JArr [])]"

definition reply_without :: "string \<Rightarrow> json" where
  "reply_without k =
     JObj (filter (\<lambda>kv. fst kv \<noteq> k)
       [(''diagnosis_summary'', JStr ''Falta liderazgo''),
        (''identified_gaps'',
           JArr [JObj [(''gap'', JStr ''Leadership''), (''severity'', JInt 7),
                       (''category'', JStr ''Blanda'')]]),
        (''recommended_plan'', JArr []),
        (''recommended_specialties'', JArr [JStr ''Liderazgo''])])"

definition reply_ai :: json where
  "reply_ai =
     JObj [(''diagnosis_summary'', JStr ''Falta adopcion de inteligencia artificial''),
           (''identified_gaps'',
              JArr [JObj [(''gap'', JStr ''A.I.''), (''severity'', JInt 8),
                          (''category'', JStr ''Tecnica'')]]),
           (''recommended_plan'', JArr []),
           (''recommended_specialties'', JArr [JStr ''A.I.''])]"

definition demo_rnd :: "nat \<Rightarrow> draw" where
  "demo_rnd i = \<lparr> fake_name = ''Ana Ruiz'', choice = i mod 6, uniform = 7 / 2 + of_nat i / 10,
                  randint = 50 + 10 * int i, fake_email = ''ana@example.org'' \<rparr>"

section \<open>Helper lemmas\<close>

lemma handler_cases:
  "process_btn_handler E inp st =
     (if \<not> process_btn inp then ([], st, None)
      else if groq_api_key inp = [] then ([St_warning warning_no_key], st, None)
      else if pain_points inp = [] then ([St_warning warning_no_pain], st, None)
      else
        (case pdf_text (uploaded_file inp) of
           Inl e \<Rightarrow> ([St_spinner spinner_text], st, Some e)
         | Inr text \<Rightarrow>
             (let r = get_ai_diagnosis E (groq_api_key inp) (pain_points inp) text
              in if truthy (snd r)
                 then (St_spinner spinner_text # fst r,
                       st(''diagnosis'' \<mapsto> snd r, ''processed'' \<mapsto> JBool True), None)
                 else (St_spinner spinner_text # fst r, st, None))))"
  by (simp add: process_btn_handler_def Let_def split: sum.splits prod.splits)

lemma get_ai_diagnosis_fails:
  assumes "create E key (diagnosis_request pain text) = Inl m
           \<or> (\<exists>c. create E key (diagnosis_request pain text) = Inr c \<and> json_loads E c = Inl m)"
  shows "get_ai_diagnosis E key pain text =
           ([Groq_create key (diagnosis_request pain text), St_error (error_head @ m)], JNull)"
  using assms by (auto simp add: get_ai_diagnosis_def Let_def)

lemma get_ai_diagnosis_parses:
  assumes "create E key (diagnosis_request pain text) = Inr c" and "json_loads E c = Inr v"
  shows "get_ai_diagnosis E key pain text = ([Groq_create key (diagnosis_request pain text)], v)"
  using assms by (simp add: get_ai_diagnosis_def Let_def)

lemma get_ai_diagnosis_calls:
  assumes "Groq_create k req \<in> set (fst (get_ai_diagnosis E key pain text))"
  shows "k = key \<and> req = diagnosis_request pain text"
  using assms by (auto simp add: get_ai_diagnosis_def Let_def split: sum.splits)

lemma matches_schema_truthy: "matches_schema v \<Longrightarrow> truthy v"
  by (cases v) auto

lemma matches_schema_lists:
  assumes "matches_schema v"
  shows "\<exists>gaps plan. getitem v ''identified_gaps'' = Inr (JArr gaps)
           \<and> getitem v ''recommended_plan'' = Inr (JArr plan)"
proof (cases v)
  case (JObj kvs)
  with assms show ?thesis
    by (auto split: option.splits json.splits)
qed (use assms in simp_all)

lemma dashboard_summary_counts:
  assumes "getitem data ''identified_gaps'' = Inr (JArr gaps)"
      and "getitem data ''recommended_plan'' = Inr (JArr plan)"
  shows "\<exists>evs. fst (dashboard_summary data) =
           St_metric label_gaps (Count (length gaps)) #
           St_metric label_plan (Count (length plan)) # evs"
  using assms
  by (simp add: dashboard_summary_def gaps_count_def plan_count_def split: sum.splits)


section \<open>Guards of the primary action\<close>

text \<open>
  C9. When the button is pressed with an empty credential or with empty needs text, the
  handler shows one warning and nothing else: its trace holds no \<open>Groq_create\<close>, the
  session state is returned as it was, and no exception ends the run.
\<close>
theorem missing_input_warns:
  assumes "process_btn inp" and "groq_api_key inp = [] \<or> pain_points inp = []"
  shows "process_btn_handler E inp st =
           ([St_warning (if groq_api_key inp = [] then warning_no_key else warning_no_pain)],
            st, None)"
  using assms by (auto simp add: process_btn_handler_def)

text \<open>C9 at a run with no credential.\<close>
theorem missing_input_warns_witness:
  "process_btn_handler env_offline inputs_no_key no_session =
     ([St_warning warning_no_key], no_session, None)"
proof -
  have "process_btn inputs_no_key" and "groq_api_key inputs_no_key = [] \<or> pain_points inputs_no_key = []"
    by (simp_all add: inputs_no_key_def)
  from missing_input_warns [OF this, of env_offline no_session] show ?thesis
    by (simp add: inputs_no_key_def)
qed

section \<open>Failed requests\<close>

text \<open>
  C2, as amended. When the remote call raises, or the reply's content does not parse as
  JSON, the handler shows an error that ends with the text of the exception and returns
  the session state unchanged. (A parsed reply is not compared with the schema.)
\<close>
theorem failed_request_keeps_state:
  assumes "process_btn inp" and "groq_api_key inp \<noteq> []" and "pain_points inp \<noteq> []"
      and "pdf_text (uploaded_file inp) = Inr text"
      and "create E (groq_api_key inp) (diagnosis_request (pain_points inp) text) = Inl m
           \<or> (\<exists>c. create E (groq_api_key inp) (diagnosis_request (pain_points inp) text) = Inr c
                  \<and> json_loads E c = Inl m)"
  shows "process_btn_handler E inp st =
           ([St_spinner spinner_text,
             Groq_create (groq_api_key inp) (diagnosis_request (pain_points inp) text),
             St_error (error_head @ m)], st, None)"
  using assms(1-4) get_ai_diagnosis_fails [OF assms(5)]
  by (simp add: handler_cases)

text \<open>C2 as amended, at a run whose remote call raises.\<close>
theorem failed_request_keeps_state_witness:
  "process_btn_handler env_offline inputs_ok no_session =
     ([St_spinner spinner_text,
       Groq_create ''gsk_demo'' (diagnosis_request ''falta liderazgo'' no_pdf_text),
       St_error (error_head @ ''Connection error.'')], no_session, None)"
proof -
  have h: "process_btn inputs_ok" "groq_api_key inputs_ok \<noteq> []" "pain_points inputs_ok \<noteq> []"
    "pdf_text (uploaded_file inputs_ok) = Inr no_pdf_text"
    by (simp_all add: inputs_ok_def pdf_text_def)
  have f: "create env_offline (groq_api_key inputs_ok)
             (diagnosis_request (pain_points inputs_ok) no_pdf_text) = Inl ''Connection error.''
           \<or> (\<exists>c. create env_offline (groq_api_key inputs_ok)
                    (diagnosis_request (pain_points inputs_ok) no_pdf_text) = Inr c
                  \<and> json_loads env_offline c = Inl ''Connection error.'')"
    by (simp add: env_offline_def)
  from failed_request_keeps_state [OF h f, of no_session] show ?thesis
    by (simp add: inputs_ok_def)
qed

text \<open>
  C2 as stated fails for a schema mismatch: a reply that parses to an object without any
  field of the schema is stored in the session state, and no error is shown.
\<close>
theorem off_schema_reply_is_cached:
  "\<not> matches_schema reply_off_schema \<and>
   fst (process_btn_handler (env_replying reply_off_schema) inputs_ok no_session) =
     [St_spinner spinner_text, Groq_create ''gsk_demo'' (diagnosis_request ''falta liderazgo'' no_pdf_text)] \<and>
   no_session ''diagnosis'' = None \<and>
   fst (snd (process_btn_handler (env_replying reply_off_schema) inputs_ok no_session)) ''diagnosis''
     = Some reply_off_schema"
  by (simp add: handler_cases inputs_ok_def env_replying_def reply_off_schema_def no_session_def
      pdf_text_def get_ai_diagnosis_def)

section \<open>Counts of a cached reply\<close>

text \<open>
  C3. For non-empty needs text and any credential: when the run makes the remote call,
  the call succeeds, and its content parses to a value that matches the schema, then that
  value is cached and the dashboard of the same run shows, as its first two metrics, the
  lengths of the reply's \<^verbatim>\<open>identified_gaps\<close> and \<^verbatim>\<open>recommended_plan\<close> lists.
\<close>
theorem schema_reply_counts:
  assumes "pain_points inp \<noteq> []"
      and "Groq_create k req \<in> set (fst (process_btn_handler E inp st))"
      and "create E k req = Inr c" and "json_loads E c = Inr reply"
      and "matches_schema reply"
  shows "\<exists>gaps plan evs.
           getitem reply ''identified_gaps'' = Inr (JArr gaps) \<and>
           getitem reply ''recommended_plan'' = Inr (JArr plan) \<and>
           fst (snd (script_run E inp st)) ''diagnosis'' = Some reply \<and>
           fst (script_run E inp st) =
             St_spinner spinner_text # Groq_create k req #
             St_metric label_gaps (Count (length gaps)) #
             St_metric label_plan (Count (length plan)) # evs"
proof -
  from assms(2) obtain doc where
    btn: "process_btn inp" and key: "groq_api_key inp \<noteq> []" and
    doc: "pdf_text (uploaded_file inp) = Inr doc" and
    call: "Groq_create k req \<in> set (fst (get_ai_diagnosis E (groq_api_key inp) (pain_points inp) doc))"
    by (auto simp add: handler_cases Let_def split: if_splits sum.splits)
  from get_ai_diagnosis_calls [OF call]
  have k: "k = groq_api_key inp" and req: "req = diagnosis_request (pain_points inp) doc"
    by simp_all
  from assms(3,4) have run:
    "get_ai_diagnosis E (groq_api_key inp) (pain_points inp) doc = ([Groq_create k req], reply)"
    unfolding k req by (rule get_ai_diagnosis_parses)
  have handler: "process_btn_handler E inp st =
      ([St_spinner spinner_text, Groq_create k req],
       st(''diagnosis'' \<mapsto> reply, ''processed'' \<mapsto> JBool True), None)"
    using btn key assms(1) doc run matches_schema_truthy [OF assms(5)]
    by (simp add: handler_cases)
  from matches_schema_lists [OF assms(5)] obtain gaps plan where
    lists: "getitem reply ''identified_gaps'' = Inr (JArr gaps)"
           "getitem reply ''recommended_plan'' = Inr (JArr plan)"
    by blast
  from dashboard_summary_counts [OF lists] obtain evs where
    evs: "fst (dashboard_summary reply) =
            St_metric label_gaps (Count (length gaps)) #
            St_metric label_plan (Count (length plan)) # evs"
    by blast
  have "fst (snd (script_run E inp st)) ''diagnosis'' = Some reply"
    by (simp add: script_run_def handler dashboard_def case_prod_beta)
  moreover have "fst (script_run E inp st) =
      St_spinner spinner_text # Groq_create k req #
      St_metric label_gaps (Count (length gaps)) # St_metric label_plan (Count (length plan)) # evs"
    using evs by (simp add: script_run_def handler dashboard_def case_prod_beta)
  ultimately show ?thesis using lists by blast
qed


text \<open>C3 at the end-to-end scenario of the specification: one gap, one module.\<close>
theorem schema_reply_counts_witness:
  "fst (script_run (env_replying reply_leadership) inputs_ok no_session) =
     [St_spinner spinner_text,
      Groq_create ''gsk_demo'' (diagnosis_request ''falta liderazgo'' no_pdf_text),
      St_metric label_gaps (Count 1), St_metric label_plan (Count 1),
      St_metric label_severity (Rounded_mean [NInt 7]),
      St_info [Lit info_head, Fmt (JStr ''Falta liderazgo'')]]"
proof -
  let ?E = "env_replying reply_leadership"
  let ?req = "diagnosis_request ''falta liderazgo'' no_pdf_text"
  have h1: "pain_points inputs_ok \<noteq> []"
    by (simp add: inputs_ok_def)
  have h2: "Groq_create ''gsk_demo'' ?req \<in> set (fst (process_btn_handler ?E inputs_ok no_session))"
    by (simp add: handler_cases inputs_ok_def env_replying_def pdf_text_def get_ai_diagnosis_def
        reply_leadership_def Let_def)
  have h3: "create ?E ''gsk_demo'' ?req = Inr (Some ''reply'')"
    by (simp add: env_replying_def)
  have h4: "json_loads ?E (Some ''reply'') = Inr reply_leadership"
    by (simp add: env_replying_def)
  have h5: "matches_schema reply_leadership"
    by (simp add: reply_leadership_def)
  from schema_reply_counts [OF h1 h2 h3 h4 h5] obtain gaps plan evs where
    "getitem reply_leadership ''identified_gaps'' = Inr (JArr gaps)"
    "getitem reply_leadership ''recommended_plan'' = Inr (JArr plan)"
    "fst (script_run ?E inputs_ok no_session) =
       St_spinner spinner_text # Groq_create ''gsk_demo'' ?req #
       St_metric label_gaps (Count (length gaps)) # St_metric label_plan (Count (length plan)) # evs"
    by blast
  moreover have "fst (script_run ?E inputs_ok no_session) =
     [St_spinner spinner_text, Groq_create ''gsk_demo'' ?req,
      St_metric label_gaps (Count 1), St_metric label_plan (Count 1),
      St_metric label_severity (Rounded_mean [NInt 7]),
      St_info [Lit info_head, Fmt (JStr ''Falta liderazgo'')]]"
    by (simp add: script_run_def handler_cases inputs_ok_def env_replying_def pdf_text_def
        get_ai_diagnosis_def reply_leadership_def dashboard_def dashboard_summary_def
        gaps_count_def plan_count_def mean_severity_def)
  ultimately show ?thesis by simp
qed

section \<open>The average severity of no gaps\<close>

text \<open>Whatever else a cached reply holds, an empty gap list ends the summary at line 150.\<close>

lemma empty_gaps_always_raise:
  assumes "getitem data ''identified_gaps'' = Inr (JArr [])"
      and "plan_count data = Inr c"
  shows "dashboard_summary data =
           ([St_metric label_gaps (Count 0), St_metric label_plan c], Some ZeroDivisionError)"
  using assms by (simp add: dashboard_summary_def gaps_count_def mean_severity_def)

text \<open>
  C1 does not hold of the code. A reply that matches the schema with an empty gap list is
  cached; the dashboard then shows the two counts and the script run ends in
  \<open>ZeroDivisionError\<close> at line 150, before any third metric is shown.
\<close>
theorem empty_gaps_divide_by_zero:
  "matches_schema reply_no_gaps \<and>
   script_run (env_replying reply_no_gaps) inputs_ok no_session =
     ([St_spinner spinner_text,
       Groq_create ''gsk_demo'' (diagnosis_request ''falta liderazgo'' no_pdf_text),
       St_metric label_gaps (Count 0), St_metric label_plan (Count 0)],
      no_session(''diagnosis'' \<mapsto> reply_no_gaps, ''processed'' \<mapsto> JBool True),
      Some ZeroDivisionError)"
  by (simp add: script_run_def handler_cases inputs_ok_def env_replying_def pdf_text_def
      get_ai_diagnosis_def reply_no_gaps_def dashboard_def dashboard_summary_def
      gaps_count_def plan_count_def mean_severity_def)

section \<open>Fields absent from a cached reply\<close>

text \<open>A cached dict without the gap list shows nothing and raises at line 148.\<close>

lemma absent_gaps_always_raise:
  assumes "map_of kvs ''identified_gaps'' = None"
  shows "dashboard_summary (JObj kvs) = ([], Some (KeyError ''identified_gaps''))"
  using assms by (simp add: dashboard_summary_def gaps_count_def)

text \<open>
  C7 does not hold of the code. Of the four fields only \<^verbatim>\<open>recommended_specialties\<close> is
  read with a default; a cached reply that lacks \<^verbatim>\<open>identified_gaps\<close>,
  \<^verbatim>\<open>recommended_plan\<close> or \<^verbatim>\<open>diagnosis_summary\<close> ends the script run in a \<open>KeyError\<close> at
  line 148, 149 or 152.
\<close>
theorem absent_fields_raise_key_error:
  "snd (snd (script_run (env_replying (reply_without ''identified_gaps'')) inputs_ok no_session)) =
     Some (KeyError ''identified_gaps'') \<and>
   dashboard_summary (reply_without ''identified_gaps'') = ([], Some (KeyError ''identified_gaps'')) \<and>
   dashboard_summary (reply_without ''recommended_plan'') =
     ([St_metric label_gaps (Count 1)], Some (KeyError ''recommended_plan'')) \<and>
   dashboard_summary (reply_without ''diagnosis_summary'') =
     ([St_metric label_gaps (Count 1), St_metric label_plan (Count 0),
       St_metric label_severity (Rounded_mean [NInt 7])], Some (KeyError ''diagnosis_summary'')) \<and>
   dict_get (reply_without ''recommended_specialties'') ''recommended_specialties'' (JArr []) =
     Inr (JArr [])"
  by (simp add: reply_without_def dashboard_summary_def gaps_count_def plan_count_def
      mean_severity_def script_run_def handler_cases inputs_ok_def env_replying_def pdf_text_def
      get_ai_diagnosis_def dashboard_def)

section \<open>No document\<close>

text \<open>
  C6 as stated fails: called with no document, \<^verbatim>\<open>extract_text_from_pdf\<close> returns the
  empty string, which is not the sentinel.
\<close>
theorem extractor_without_document:
  "extract_text_from_pdf None = Inr [] \<and> no_pdf_text \<noteq> []"
  by (simp add: no_pdf_text_def)

text \<open>
  C6, as amended. When no document is supplied, the handler does not call the extractor:
  the document text it hands to the diagnosis requester is the fixed sentinel string, and
  the request that leaves the process is built from it.
\<close>
theorem no_document_sends_sentinel:
  assumes "process_btn inp" and "groq_api_key inp \<noteq> []" and "pain_points inp \<noteq> []"
      and "uploaded_file inp = None"
  shows "pdf_text (uploaded_file inp) = Inr no_pdf_text \<and>
         fst (process_btn_handler E inp st) ! 1 =
           Groq_create (groq_api_key inp) (diagnosis_request (pain_points inp) no_pdf_text)"
  using assms
  by (simp add: handler_cases pdf_text_def get_ai_diagnosis_def Let_def split: sum.splits)

text \<open>C6 as amended, at a run with no document.\<close>
theorem no_document_sends_sentinel_witness:
  "pdf_text (uploaded_file inputs_ok) = Inr no_pdf_text \<and>
   fst (process_btn_handler env_offline inputs_ok no_session) ! 1 =
     Groq_create ''gsk_demo'' (diagnosis_request ''falta liderazgo'' no_pdf_text)"
proof -
  have h: "process_btn inputs_ok" "groq_api_key inputs_ok \<noteq> []" "pain_points inputs_ok \<noteq> []"
    "uploaded_file inputs_ok = None"
    by (simp_all add: inputs_ok_def)
  from no_document_sends_sentinel [OF h, of env_offline no_session] show ?thesis
    by (simp add: inputs_ok_def)
qed

section \<open>Truncation of the document text\<close>

text \<open>
  C8. The first event of the diagnosis requester is the remote call, and the user message
  of its request holds the needs text whole and the first 2000 characters of the
  document text, between fixed literals; so the document adds at most 2000 characters to
  the message whatever its size.
\<close>
theorem request_truncates_document:
  "hd (fst (get_ai_diagnosis E key pain doc)) = Groq_create key (diagnosis_request pain doc) \<and>
   messages (diagnosis_request pain doc) =
     [(''system'', system_prompt),
      (''user'', content_head @ pain @ content_mid @ take 2000 doc @ content_tail)] \<and>
   length (take 2000 doc) = min (length doc) 2000 \<and>
   length (user_content pain doc) \<le>
     length content_head + length pain + length content_mid + 2000 + length content_tail"
proof -
  have "hd (fst (get_ai_diagnosis E key pain doc)) = Groq_create key (diagnosis_request pain doc)"
    by (simp add: get_ai_diagnosis_def Let_def split: sum.splits)
  moreover have "messages (diagnosis_request pain doc) =
     [(''system'', system_prompt),
      (''user'', content_head @ pain @ content_mid @ take 2000 doc @ content_tail)]"
    by (simp add: diagnosis_request_def user_content_def)
  moreover have "length (user_content pain doc) \<le>
     length content_head + length pain + length content_mid + 2000 + length content_tail"
    by (simp add: user_content_def)
  ultimately show ?thesis by simp
qed


section \<open>Mock directory generator: shape of the table\<close>

lemma py_round1_tenths:
  assumes "7 / 2 \<le> x" and "x \<le> 5"
  shows "\<exists>k::int. 35 \<le> k \<and> k \<le> 50 \<and> py_round1 x = of_int k / 10"
proof -
  define f where "f = \<lfloor>x * 10\<rfloor>"
  define r where "r = x * 10 - of_int f"
  have lo: "35 \<le> f"
    using assms(1) unfolding f_def by (simp add: le_floor_iff)
  have hi: "f \<le> 50"
    using assms(2) unfolding f_def by (simp add: floor_le_iff)
  have top: "r < 1 / 2" if "f = 50"
  proof -
    have "x * 10 \<le> 50" using assms(2) by simp
    with that show ?thesis unfolding r_def by simp
  qed
  define k where "k = (if r < 1 / 2 then f else if 1 / 2 < r then f + 1
                       else if even f then f else f + 1)"
  have "py_round1 x = of_int k / 10"
    by (simp add: py_round1_def Let_def k_def f_def r_def)
  moreover have "35 \<le> k" using lo by (simp add: k_def)
  moreover have "k \<le> 50" using hi top by (cases "f = 50") (auto simp add: k_def)
  ultimately show ?thesis by blast
qed

lemma length_specialties: "length specialties = 6"
  by (simp add: specialties_def)

lemma mock_expert_fields:
  assumes "valid_draw d"
  shows "specialty (mock_expert i d) \<in> set specialties \<and>
         (\<exists>k::int. 35 \<le> k \<and> k \<le> 50 \<and> rating (mock_expert i d) = of_int k / 10) \<and>
         50 \<le> hourly_rate (mock_expert i d) \<and> hourly_rate (mock_expert i d) \<le> 200"
proof -
  from assms have "choice d < length specialties" "7 / 2 \<le> uniform d" "uniform d \<le> 5"
    "50 \<le> randint d" "randint d \<le> 200"
    by (simp_all add: valid_draw_def)
  then show ?thesis
    using py_round1_tenths [of "uniform d"] by (simp add: mock_expert_def)
qed

lemma length_generate_mock_database: "length (generate_mock_database rnd) = 15"
  by (simp add: generate_mock_database_def)

text \<open>
  C10. For every draw of the random sources that keeps the contract of \<^verbatim>\<open>random\<close>, the
  generator returns exactly 15 records; each has a specialty of the fixed list, a rating
  that is a whole number of tenths from 3.5 to 5.0, and an hourly rate that is an integer
  from 50 to 200.
\<close>
theorem generate_mock_database_shape:
  assumes "\<forall>i<15. valid_draw (rnd i)"
  shows "length (generate_mock_database rnd) = 15 \<and>
         (\<forall>e \<in> set (generate_mock_database rnd).
            specialty e \<in> set specialties \<and>
            (\<exists>k::int. 35 \<le> k \<and> k \<le> 50 \<and> rating e = of_int k / 10) \<and>
            50 \<le> hourly_rate e \<and> hourly_rate e \<le> 200)"
proof
  show "length (generate_mock_database rnd) = 15"
    by (simp add: generate_mock_database_def)
next
  show "\<forall>e \<in> set (generate_mock_database rnd).
            specialty e \<in> set specialties \<and>
            (\<exists>k::int. 35 \<le> k \<and> k \<le> 50 \<and> rating e = of_int k / 10) \<and>
            50 \<le> hourly_rate e \<and> hourly_rate e \<le> 200"
  proof
    fix e assume "e \<in> set (generate_mock_database rnd)"
    then obtain i where "i < 15" and "e = mock_expert i (rnd i)"
      by (auto simp add: generate_mock_database_def)
    with assms mock_expert_fields [of "rnd i" i] show
      "specialty e \<in> set specialties \<and>
       (\<exists>k::int. 35 \<le> k \<and> k \<le> 50 \<and> rating e = of_int k / 10) \<and>
       50 \<le> hourly_rate e \<and> hourly_rate e \<le> 200"
      by simp
  qed
qed

text \<open>C10 at a concrete sequence of draws.\<close>
theorem generate_mock_database_shape_witness:
  "length (generate_mock_database demo_rnd) = 15 \<and>
   specialty (mock_expert 3 (demo_rnd 3)) \<in> set specialties \<and>
   (\<exists>k::int. 35 \<le> k \<and> k \<le> 50 \<and> rating (mock_expert 3 (demo_rnd 3)) = of_int k / 10) \<and>
   50 \<le> hourly_rate (mock_expert 3 (demo_rnd 3)) \<and>
   hourly_rate (mock_expert 3 (demo_rnd 3)) \<le> 200"
proof -
  have h: "\<forall>i<15. valid_draw (demo_rnd i)"
    by (simp add: valid_draw_def demo_rnd_def length_specialties field_simps)
  have row: "mock_expert 3 (demo_rnd 3) \<in> set (generate_mock_database demo_rnd)"
    by (auto simp add: generate_mock_database_def intro!: image_eqI [where x = 3])
  from generate_mock_database_shape [OF h] row show ?thesis
    by blast
qed

section \<open>Expert filter: every recommended specialty\<close>

lemma df_sample_draw:
  assumes "is_draw n (length df) idxs" and "n \<le> length df"
  shows "df_sample n idxs df = Returns (map (\<lambda>i. df ! i) idxs)"
    and "length (map (\<lambda>i. df ! i) idxs) = n"
    and "set (map (\<lambda>i. df ! i) idxs) \<subseteq> set df"
  using assms by (auto simp add: df_sample_def is_draw_def list_all_iff)

text \<open>
  C5. When the selection is \<^verbatim>\<open>"Todos"\<close>, the filter returns the rows of the directory whose
  specialty is one of the recommended specialties, in table order; when there is none, it
  returns the sample of the random source, which has 5 rows of the directory at distinct
  row numbers.
\<close>
theorem filter_all_selects_recommended:
  assumes "dict_get data ''recommended_specialties'' (JArr []) = Inr (JArr rec_specialties)"
      and "list_all is_JStr rec_specialties"
      and "is_draw 5 15 idxs"
  shows "(let experts_db = generate_mock_database rnd;
              matched = filter (\<lambda>e. JStr (specialty e) \<in> set rec_specialties) experts_db;
              sample = map (\<lambda>i. experts_db ! i) idxs
          in expert_filter experts_db data (JStr ''Todos'') idxs =
               Returns (if matched = [] then sample else matched) \<and>
             length sample = 5 \<and> distinct idxs \<and> set sample \<subseteq> set experts_db)"
proof -
  define experts_db where "experts_db = generate_mock_database rnd"
  have len: "length experts_db = 15"
    by (simp add: experts_db_def length_generate_mock_database)
  have draw: "is_draw 5 (length experts_db) idxs" and five: "5 \<le> length experts_db"
    using assms(3) len by simp_all
  have "expert_filter experts_db data (JStr ''Todos'') idxs =
          Returns (if filter (\<lambda>e. JStr (specialty e) \<in> set rec_specialties) experts_db = []
                   then map (\<lambda>i. experts_db ! i) idxs
                   else filter (\<lambda>e. JStr (specialty e) \<in> set rec_specialties) experts_db)"
    using assms(1,2) df_sample_draw(1) [OF draw five]
    by (simp add: expert_filter_def Let_def)
  moreover have "distinct idxs"
    using assms(3) by (simp add: is_draw_def)
  ultimately show ?thesis
    using df_sample_draw(2,3) [OF draw five] by (simp add: Let_def experts_db_def)
qed

text \<open>C5 at a reply with one match in the directory, and at a reply with none.\<close>
theorem filter_all_selects_recommended_witness:
  "expert_filter (generate_mock_database demo_rnd) reply_leadership (JStr ''Todos'') [4, 0, 7, 2, 9] =
     Returns [mock_expert 0 (demo_rnd 0), mock_expert 6 (demo_rnd 6), mock_expert 12 (demo_rnd 12)] \<and>
   expert_filter (generate_mock_database demo_rnd) reply_no_gaps (JStr ''Todos'') [4, 0, 7, 2, 9] =
     Returns [mock_expert 4 (demo_rnd 4), mock_expert 0 (demo_rnd 0), mock_expert 7 (demo_rnd 7),
              mock_expert 2 (demo_rnd 2), mock_expert 9 (demo_rnd 9)]"
proof -
  have d: "is_draw 5 15 [4, 0, 7, 2, 9]"
    by (simp add: is_draw_def)
  have a1: "dict_get reply_leadership ''recommended_specialties'' (JArr []) =
              Inr (JArr [JStr ''Liderazgo''])"
    by (simp add: reply_leadership_def)
  have a2: "list_all is_JStr [JStr ''Liderazgo'']"
    by simp
  have b1: "dict_get reply_no_gaps ''recommended_specialties'' (JArr []) = Inr (JArr [])"
    by (simp add: reply_no_gaps_def)
  have b2: "list_all is_JStr []"
    by simp
  have m: "filter (\<lambda>e. JStr (specialty e) \<in> set [JStr ''Liderazgo''])
             (generate_mock_database demo_rnd) =
           [mock_expert 0 (demo_rnd 0), mock_expert 6 (demo_rnd 6), mock_expert 12 (demo_rnd 12)]"
    by code_simp
  have s: "map (\<lambda>i. generate_mock_database demo_rnd ! i) [4, 0, 7, 2, 9] =
           [mock_expert 4 (demo_rnd 4), mock_expert 0 (demo_rnd 0), mock_expert 7 (demo_rnd 7),
            mock_expert 2 (demo_rnd 2), mock_expert 9 (demo_rnd 9)]"
    by code_simp
  have n: "filter (\<lambda>e. JStr (specialty e) \<in> set []) (generate_mock_database demo_rnd) = []"
    by simp
  from filter_all_selects_recommended [OF a1 a2 d, of demo_rnd, unfolded Let_def m s]
       filter_all_selects_recommended [OF b1 b2 d, of demo_rnd, unfolded Let_def n s]
  show ?thesis by simp
qed

section \<open>Expert filter: a chosen specialty\<close>

text \<open>
  \<open>contains_ci\<close> is the substring relation on case-folded text, and the search of the
  code agrees with it on a pattern that has no dot (and no other special character).
\<close>

lemma is_prefix_ci_prefix: "is_prefix_ci pat s \<longleftrightarrow> prefix (map lower pat) (map lower s)"
  by (induction pat s rule: is_prefix_ci.induct) auto

lemma contains_ci_sublist: "contains_ci pat s \<longleftrightarrow> sublist (map lower pat) (map lower s)"
  by (induction s) (auto simp add: is_prefix_ci_prefix sublist_Cons_right)

lemma match_here_literal: "CHR ''.'' \<notin> set pat \<Longrightarrow> match_here pat s = is_prefix_ci pat s"
  by (induction pat s rule: match_here.induct) auto

lemma re_search_literal: "CHR ''.'' \<notin> set pat \<Longrightarrow> re_search pat s = contains_ci pat s"
  by (induction s) (auto simp add: match_here_literal)


text \<open>
  For a chosen specialty without special characters the filter returns the rows whose
  specialty contains it, case folded, and otherwise the sample of 3 rows.
\<close>

lemma expert_filter_literal:
  assumes "dict_get data ''recommended_specialties'' (JArr []) = Inr (JArr rec_specialties)"
      and "pat \<noteq> ''Todos''" and "in_fragment pat" and "CHR ''.'' \<notin> set pat"
      and "is_draw 3 15 idxs"
  shows "(let experts_db = generate_mock_database rnd;
              matched = spec_selection pat experts_db;
              sample = map (\<lambda>i. experts_db ! i) idxs
          in expert_filter experts_db data (JStr pat) idxs =
               Returns (if matched = [] then sample else matched) \<and>
             length sample = 3 \<and> distinct idxs \<and> set sample \<subseteq> set experts_db)"
proof -
  define experts_db where "experts_db = generate_mock_database rnd"
  have len: "length experts_db = 15"
    by (simp add: experts_db_def length_generate_mock_database)
  have draw: "is_draw 3 (length experts_db) idxs" and three: "3 \<le> length experts_db"
    using assms(5) len by simp_all
  have "expert_filter experts_db data (JStr pat) idxs =
          Returns (if spec_selection pat experts_db = []
                   then map (\<lambda>i. experts_db ! i) idxs else spec_selection pat experts_db)"
    using assms(1-4) df_sample_draw(1) [OF draw three]
    by (simp add: expert_filter_def Let_def spec_selection_def re_search_literal)
  moreover have "distinct idxs"
    using assms(5) by (simp add: is_draw_def)
  ultimately show ?thesis
    using df_sample_draw(2,3) [OF draw three] by (simp add: Let_def experts_db_def)
qed

lemma spec_selection_sublist:
  "set (spec_selection pat experts_db) =
     {e \<in> set experts_db. sublist (map lower pat) (map lower (specialty e))}"
  by (simp add: spec_selection_def contains_ci_sublist)

text \<open>
  C4 does not hold of the code. The chosen specialty is searched as a regular expression,
  not as a substring: for the recommended specialty \<^verbatim>\<open>A.I.\<close> no row of the directory
  contains the text, so the claim asks for a sample of 3 rows, and the filter returns the
  two rows whose specialty is \<^verbatim>\<open>Agile\<close>, which the pattern matches.
\<close>
theorem dotted_specialty_is_a_pattern:
  "spec_selection ''A.I.'' (generate_mock_database demo_rnd) = [] \<and>
   expert_filter (generate_mock_database demo_rnd) reply_ai (JStr ''A.I.'') [0, 1, 2] =
     Returns [mock_expert 3 (demo_rnd 3), mock_expert 9 (demo_rnd 9)] \<and>
   specialty (mock_expert 3 (demo_rnd 3)) = ''Agile'' \<and>
   specialty (mock_expert 9 (demo_rnd 9)) = ''Agile''"
  by code_simp


end
